theory Spec2Isabelle
  imports
    Main
    "HOL-Library.Word"
    "HOL-Library.List_Lexorder"
    "HOL-Library.Product_Lexorder"
begin

unbundle bit_operations_syntax

section \<open>The serial port interface of ZigBee Terminal (SerialInterface.cpp)\<close>

text \<open>
  \<^verbatim>\<open>SerialInterface\<close> is one C++ class with two bodies selected by the preprocessor:
  the \<^verbatim>\<open>__unix__\<close> one (termios, \<^verbatim>\<open>select\<close>) and the \<^verbatim>\<open>_WIN32\<close> one (DCB, overlapped
  I/O). Both bodies are embedded; a function of the class is written twice, with the
  suffixes \<open>_unix\<close> and \<open>_win32\<close>, wherever its body differs between the two.

  The object is a record. Its members common to both builds form the base record; the
  members under \<^verbatim>\<open>#ifdef\<close> extend it. Three further fields record what the object does to
  the outside and are no members of the class: \<open>emitted\<close> (the sigc signals raised, in
  order), \<open>os_calls\<close> (the operating system calls made, in order) and \<open>threads\<close> (the
  number of threads created by \<^verbatim>\<open>launch_select_thread\<close> that have not yet returned from
  \<^verbatim>\<open>select_thread\<close>).

  What the operating system answers is an argument of the function that asks: every
  modelled function that makes a call whose result it uses takes a record (or a value)
  of replies. Text written to \<^verbatim>\<open>std::cerr\<close> and \<^verbatim>\<open>std::cout\<close> is not modelled, and
  neither are the slots that the user of the class connects to its signals: raising a
  signal adds it to \<open>emitted\<close> and nothing more.
\<close>

subsection \<open>Status codes, signals, operating system calls\<close>

text \<open>
  Modelled from the spec: the header \<^verbatim>\<open>SerialInterface.h\<close> is not among the sources, so
  the status codes are the three distinct results the functions return by name (success,
  error, not open).
\<close>

datatype status = SI_SUCCESS | SI_ERROR | SI_PORT_NOT_OPEN

text \<open>
  Modelled from the spec: the enumerators of the same header, parity \<open>None, Odd, Even\<close> and
  flow control \<open>None, Hardware, SoftwareXonXoff\<close>, numbered from 0.
\<close>

definition SI_PARITY_NONE :: int where "SI_PARITY_NONE = 0"
definition SI_PARITY_ODD :: int where "SI_PARITY_ODD = 1"
definition SI_PARITY_EVEN :: int where "SI_PARITY_EVEN = 2"

definition SI_FLOW_NONE :: int where "SI_FLOW_NONE = 0"
definition SI_FLOW_HARDWARE :: int where "SI_FLOW_HARDWARE = 1"
definition SI_FLOW_XON_XOFF :: int where "SI_FLOW_XON_XOFF = 2"

datatype signal = Port_opened | Port_closed | Port_error | Port_receive_data

type_synonym tcflag_t = "32 word"
type_synonym cc_t = "8 word"
type_synonym DWORD = "32 word"
type_synonym gsize = "64 word"
type_synonym HANDLE = int

record termios =
  c_iflag :: tcflag_t
  c_oflag :: tcflag_t
  c_cflag :: tcflag_t
  c_lflag :: tcflag_t
  c_line :: cc_t
  c_cc :: "cc_t list"
  c_ispeed :: "32 word"
  c_ospeed :: "32 word"

text \<open>The fields of the Windows DCB that the program writes.\<close>

record DCB =
  DCBlength :: DWORD
  BaudRate :: DWORD
  ByteSize :: "8 word"
  StopBits :: "8 word"
  Parity :: "8 word"
  fOutxCtsFlow :: bool
  fOutxDsrFlow :: bool
  fDtrControl :: "2 word"
  fOutX :: bool
  fInX :: bool
  fRtsControl :: "2 word"

record COMMTIMEOUTS =
  ReadIntervalTimeout :: DWORD
  ReadTotalTimeoutMultiplier :: DWORD
  ReadTotalTimeoutConstant :: DWORD
  WriteTotalTimeoutMultiplier :: DWORD
  WriteTotalTimeoutConstant :: DWORD

datatype queue_selector = TCIFLUSH | TCOFLUSH

datatype os_call =
    Sys_open string
  | Sys_close int
  | Sys_tcgetattr int
  | Sys_tcsetattr int termios
  | Sys_tcflush int queue_selector
  | Sys_write int "8 word list" gsize
  | Sys_read int gsize
  | Sys_select int
  | Win_CreateFile string
  | Win_CloseHandle HANDLE
  | Win_SetCommMask HANDLE DWORD
  | Win_GetCommState HANDLE
  | Win_SetCommState HANDLE DCB
  | Win_GetCommTimeouts HANDLE
  | Win_SetCommTimeouts HANDLE COMMTIMEOUTS
  | Win_CreateEvent
  | Win_ResetEvent HANDLE
  | Win_SetEvent HANDLE
  | Win_WaitCommEvent HANDLE HANDLE
  | Win_WaitForSingleObject HANDLE
  | Win_GetOverlappedResult HANDLE bool
  | Win_CancelIo HANDLE
  | Win_WriteFile HANDLE "8 word list" DWORD HANDLE
  | Win_ReadFile HANDLE DWORD HANDLE

subsection \<open>The object\<close>

text \<open>
  \<^verbatim>\<open>baud\<close> is an \<^verbatim>\<open>unsigned long\<close> (64 bits on Linux, 32 on Windows); the program only
  stores and compares it, so one width serves both builds.
\<close>

record SerialInterface =
  baud :: "64 word"
  port :: string
  bits :: int
  flow :: int
  parity :: int
  debug :: bool
  running :: bool
  emitted :: "signal list"
  os_calls :: "os_call list"
  threads :: nat

record SerialInterface_unix = SerialInterface +
  port_fd :: int
  port_termios :: termios
  port_termios_saved :: termios

record SerialInterface_win32 = SerialInterface +
  h_port :: HANDLE
  h_overlapped :: HANDLE
  h_overlapped_thread :: HANDLE
  dcb_serial_params :: DCB
  dcb_serial_params_saved :: DCB

definition emit :: "signal \<Rightarrow> 'a SerialInterface_scheme \<Rightarrow> 'a SerialInterface_scheme" where
  "emit sg s = s\<lparr>emitted := emitted s @ [sg]\<rparr>"

definition sys :: "os_call \<Rightarrow> 'a SerialInterface_scheme \<Rightarrow> 'a SerialInterface_scheme" where
  "sys c s = s\<lparr>os_calls := os_calls s @ [c]\<rparr>"

subsection \<open>Constants of the system headers\<close>

text \<open>The values of Linux's \<^verbatim>\<open>asm-generic/termbits.h\<close> (octal there).\<close>

definition B300 :: tcflag_t where "B300 = 7"
definition B600 :: tcflag_t where "B600 = 8"
definition B1200 :: tcflag_t where "B1200 = 9"
definition B2400 :: tcflag_t where "B2400 = 11"
definition B4800 :: tcflag_t where "B4800 = 12"
definition B9600 :: tcflag_t where "B9600 = 13"
definition B19200 :: tcflag_t where "B19200 = 14"
definition B38400 :: tcflag_t where "B38400 = 15"
definition B57600 :: tcflag_t where "B57600 = 4097"
definition B115200 :: tcflag_t where "B115200 = 4098"
definition CBAUD :: tcflag_t where "CBAUD = 4111"

definition CS5 :: tcflag_t where "CS5 = 0"
definition CS6 :: tcflag_t where "CS6 = 16"
definition CS7 :: tcflag_t where "CS7 = 32"
definition CS8 :: tcflag_t where "CS8 = 48"
definition CREAD :: tcflag_t where "CREAD = 128"
definition PARENB :: tcflag_t where "PARENB = 256"
definition PARODD :: tcflag_t where "PARODD = 512"
definition CLOCAL :: tcflag_t where "CLOCAL = 2048"
definition CRTSCTS :: tcflag_t where "CRTSCTS = 2147483648"

definition IGNBRK :: tcflag_t where "IGNBRK = 1"
definition IGNPAR :: tcflag_t where "IGNPAR = 4"
definition IXON :: tcflag_t where "IXON = 1024"
definition IXOFF :: tcflag_t where "IXOFF = 4096"

definition VTIME :: nat where "VTIME = 5"
definition VMIN :: nat where "VMIN = 6"

text \<open>The values of the Windows SDK (\<^verbatim>\<open>winbase.h\<close>, \<^verbatim>\<open>winerror.h\<close>).\<close>

definition CBR_300 :: DWORD where "CBR_300 = 300"
definition CBR_600 :: DWORD where "CBR_600 = 600"
definition CBR_1200 :: DWORD where "CBR_1200 = 1200"
definition CBR_2400 :: DWORD where "CBR_2400 = 2400"
definition CBR_4800 :: DWORD where "CBR_4800 = 4800"
definition CBR_9600 :: DWORD where "CBR_9600 = 9600"
definition CBR_19200 :: DWORD where "CBR_19200 = 19200"
definition CBR_38400 :: DWORD where "CBR_38400 = 38400"
definition CBR_57600 :: DWORD where "CBR_57600 = 57600"
definition CBR_115200 :: DWORD where "CBR_115200 = 115200"

definition ONESTOPBIT :: "8 word" where "ONESTOPBIT = 0"
definition NOPARITY :: "8 word" where "NOPARITY = 0"
definition ODDPARITY :: "8 word" where "ODDPARITY = 1"
definition EVENPARITY :: "8 word" where "EVENPARITY = 2"
definition DTR_CONTROL_DISABLE :: "2 word" where "DTR_CONTROL_DISABLE = 0"
definition DTR_CONTROL_HANDSHAKE :: "2 word" where "DTR_CONTROL_HANDSHAKE = 2"
definition EV_RXCHAR :: DWORD where "EV_RXCHAR = 1"
definition MAXDWORD :: DWORD where "MAXDWORD = 4294967295"
definition INVALID_HANDLE_VALUE :: HANDLE where "INVALID_HANDLE_VALUE = - 1"
definition ERROR_IO_PENDING :: DWORD where "ERROR_IO_PENDING = 997"
definition WAIT_OBJECT_0 :: DWORD where "WAIT_OBJECT_0 = 0"
definition WAIT_TIMEOUT :: DWORD where "WAIT_TIMEOUT = 258"

subsection \<open>The constructor and \<^verbatim>\<open>is_open\<close>\<close>

text \<open>
  The constructor leaves the control blocks uninitialised: their contents are arguments.
\<close>

definition SerialInterface_unix :: "termios \<Rightarrow> termios \<Rightarrow> SerialInterface_unix" where
  "SerialInterface_unix t0 t1 =
     \<lparr>baud = 19200, port = [], bits = 8, flow = SI_FLOW_NONE, parity = SI_PARITY_NONE,
      debug = False, running = False, emitted = [], os_calls = [], threads = 0,
      port_fd = - 1, port_termios = t0, port_termios_saved = t1\<rparr>"

definition SerialInterface_win32 :: "DCB \<Rightarrow> DCB \<Rightarrow> SerialInterface_win32" where
  "SerialInterface_win32 d0 d1 =
     \<lparr>baud = 19200, port = [], bits = 8, flow = SI_FLOW_NONE, parity = SI_PARITY_NONE,
      debug = False, running = False, emitted = [], os_calls = [], threads = 0,
      h_port = INVALID_HANDLE_VALUE, h_overlapped = INVALID_HANDLE_VALUE,
      h_overlapped_thread = INVALID_HANDLE_VALUE,
      dcb_serial_params = d0, dcb_serial_params_saved = d1\<rparr>"

definition is_open_unix :: "SerialInterface_unix \<Rightarrow> bool" where
  "is_open_unix s = (port_fd s \<noteq> - 1)"

definition is_open_win32 :: "SerialInterface_win32 \<Rightarrow> bool" where
  "is_open_win32 s = (h_port s \<noteq> INVALID_HANDLE_VALUE)"

subsection \<open>Members common to both builds\<close>

definition on_receive_data :: "'a SerialInterface_scheme \<Rightarrow> 'a SerialInterface_scheme" where
  "on_receive_data s = emit Port_receive_data s"

text \<open>
  \<^verbatim>\<open>Glib::Thread::create\<close> starts a detached thread that runs \<^verbatim>\<open>select_thread\<close>; nothing
  in the class keeps or joins it.
\<close>

definition launch_select_thread :: "'a SerialInterface_scheme \<Rightarrow> 'a SerialInterface_scheme" where
  "launch_select_thread s = s\<lparr>running := True, threads := threads s + 1\<rparr>"

definition get_port :: "'a SerialInterface_scheme \<Rightarrow> string" where
  "get_port s = port s"

definition get_baud :: "'a SerialInterface_scheme \<Rightarrow> 64 word" where
  "get_baud s = baud s"

definition get_bits :: "'a SerialInterface_scheme \<Rightarrow> int" where
  "get_bits s = bits s"

definition get_flow :: "'a SerialInterface_scheme \<Rightarrow> int" where
  "get_flow s = flow s"

definition get_parity :: "'a SerialInterface_scheme \<Rightarrow> int" where
  "get_parity s = parity s"

definition set_debug :: "bool \<Rightarrow> 'a SerialInterface_scheme \<Rightarrow> bool \<times> 'a SerialInterface_scheme" where
  "set_debug d s = (d, s\<lparr>debug := d\<rparr>)"

definition get_debug :: "'a SerialInterface_scheme \<Rightarrow> bool" where
  "get_debug s = debug s"

subsection \<open>The \<^verbatim>\<open>__unix__\<close> build\<close>

text \<open>The four \<^verbatim>\<open>switch\<close> statements of \<^verbatim>\<open>configure_port\<close>, in the order of the source.\<close>

definition baud_cflag :: "64 word \<Rightarrow> tcflag_t" where
  "baud_cflag b =
     (if b = 300 then B300
      else if b = 600 then B600
      else if b = 1200 then B1200
      else if b = 2400 then B2400
      else if b = 4800 then B4800
      else if b = 9600 then B9600
      else if b = 19200 then B19200
      else if b = 38400 then B38400
      else if b = 57600 then B57600
      else if b = 115200 then B115200
      else B19200)"

definition bits_cflag :: "int \<Rightarrow> tcflag_t \<Rightarrow> tcflag_t" where
  "bits_cflag n cf =
     (if n = 5 then cf OR CS5
      else if n = 6 then cf OR CS6
      else if n = 7 then cf OR CS7
      else if n = 8 then cf OR CS8
      else cf)"

definition parity_cflag :: "int \<Rightarrow> tcflag_t \<Rightarrow> tcflag_t" where
  "parity_cflag p cf =
     (if p = SI_PARITY_NONE then cf
      else if p = SI_PARITY_ODD then cf OR (PARODD OR PARENB)
      else if p = SI_PARITY_EVEN then cf OR PARENB
      else cf)"

definition flow_flags :: "int \<Rightarrow> tcflag_t \<times> tcflag_t \<Rightarrow> tcflag_t \<times> tcflag_t" where
  "flow_flags f ci =
     (case ci of (cf, ifl) \<Rightarrow>
        if f = SI_FLOW_NONE then (cf OR CLOCAL, ifl)
        else if f = SI_FLOW_HARDWARE then (cf OR CRTSCTS, ifl)
        else if f = SI_FLOW_XON_XOFF then (cf, ifl OR (IXON OR IXOFF))
        else (cf, ifl))"

definition assemble_termios :: "SerialInterface_unix \<Rightarrow> termios" where
  "assemble_termios s =
     (let cf = parity_cflag (parity s) (bits_cflag (bits s) (baud_cflag (baud s))) OR CREAD;
          ci = flow_flags (flow s) (cf, IGNPAR OR IGNBRK)
      in (port_termios s)
           \<lparr>c_iflag := snd ci, c_oflag := 0, c_cflag := fst ci, c_lflag := 0,
            c_cc := (c_cc (port_termios s))[VTIME := 0, VMIN := 1]\<rparr>)"

definition configure_port_unix :: "SerialInterface_unix \<Rightarrow> SerialInterface_unix" where
  "configure_port_unix s =
     (let t = assemble_termios s
      in sys (Sys_tcsetattr (port_fd s) t) (s\<lparr>port_termios := t\<rparr>))"

definition close_port_unix :: "SerialInterface_unix \<Rightarrow> status \<times> SerialInterface_unix" where
  "close_port_unix s =
     (if is_open_unix s then
        let s1 = s\<lparr>running := False\<rparr>;
            s2 = sys (Sys_tcsetattr (port_fd s1) (port_termios_saved s1)) s1;
            s3 = sys (Sys_tcflush (port_fd s2) TCOFLUSH) s2;
            s4 = sys (Sys_tcflush (port_fd s3) TCIFLUSH) s3;
            s5 = sys (Sys_close (port_fd s4)) s4;
            s6 = s5\<lparr>port_fd := - 1\<rparr>
        in (SI_SUCCESS, emit Port_closed s6)
      else (SI_SUCCESS, s))"

text \<open>
  \<open>open_fd\<close> is what \<^verbatim>\<open>open(2)\<close> returns (\<open>-1\<close> on failure); \<open>open_attr\<close> is what
  \<^verbatim>\<open>tcgetattr\<close> stores (\<open>None\<close>: it fails and stores nothing).
\<close>

record open_reply_unix =
  open_fd :: int
  open_attr :: "termios option"

definition open_port_unix ::
  "open_reply_unix \<Rightarrow> SerialInterface_unix \<Rightarrow> status \<times> SerialInterface_unix" where
  "open_port_unix e s =
     (let s0 = snd (close_port_unix s);
          s1 = (sys (Sys_open (port s0)) s0)\<lparr>port_fd := open_fd e\<rparr>
      in if \<not> is_open_unix s1 then (SI_ERROR, s1)
         else
           let s2 = sys (Sys_tcgetattr (port_fd s1)) s1;
               s3 = (case open_attr e of None \<Rightarrow> s2 | Some t \<Rightarrow> s2\<lparr>port_termios := t\<rparr>);
               s4 = s3\<lparr>port_termios_saved := port_termios s3\<rparr>;
               s5 = configure_port_unix s4;
               s6 = sys (Sys_tcflush (port_fd s5) TCOFLUSH) s5;
               s7 = sys (Sys_tcflush (port_fd s6) TCIFLUSH) s6;
               s8 = launch_select_thread s7
           in (SI_SUCCESS, emit Port_opened s8))"

text \<open>
  \<^verbatim>\<open>write\<close> and \<^verbatim>\<open>read\<close> assign the \<^verbatim>\<open>ssize_t\<close> result of the system call to the
  \<^verbatim>\<open>gsize&\<close> argument (an unsigned 64-bit value) and compare that with \<open>-1\<close>. The
  result is the status, the object, and the arguments passed by reference.
\<close>

definition write_unix ::
  "int \<Rightarrow> SerialInterface_unix \<Rightarrow> 8 word list \<Rightarrow> gsize \<Rightarrow> gsize
     \<Rightarrow> status \<times> SerialInterface_unix \<times> gsize" where
  "write_unix ret s buf count bytes_written =
     (if \<not> is_open_unix s then (SI_PORT_NOT_OPEN, s, bytes_written)
      else
        let s1 = sys (Sys_write (port_fd s) buf count) s;
            bytes_written' = (word_of_int ret :: gsize)
        in if bytes_written' = - 1
           then (SI_ERROR, snd (close_port_unix (emit Port_error s1)), bytes_written')
           else (SI_SUCCESS, s1, bytes_written'))"

record read_reply_unix =
  read_ret :: int
  read_buf :: "8 word list"

definition read_unix ::
  "read_reply_unix \<Rightarrow> SerialInterface_unix \<Rightarrow> 8 word list \<Rightarrow> gsize \<Rightarrow> gsize
     \<Rightarrow> status \<times> SerialInterface_unix \<times> 8 word list \<times> gsize" where
  "read_unix r s buf count bytes_read =
     (if \<not> is_open_unix s then (SI_PORT_NOT_OPEN, s, buf, bytes_read)
      else
        let s1 = sys (Sys_read (port_fd s) count) s;
            bytes_read' = (word_of_int (read_ret r) :: gsize)
        in if bytes_read' = - 1
           then (SI_ERROR, snd (close_port_unix (emit Port_error s1)), read_buf r, bytes_read')
           else (SI_SUCCESS, s1, read_buf r, bytes_read'))"

text \<open>
  One turn of the loop of \<^verbatim>\<open>select_thread\<close>: the test of the loop condition and, when it
  holds, the body. The Boolean says whether the thread goes on to another turn; \<open>False\<close>
  is a return from \<^verbatim>\<open>select_thread\<close>, which ends the thread.
\<close>

record select_reply =
  select_n :: int
  select_isset :: bool

definition select_thread_unix ::
  "select_reply \<Rightarrow> SerialInterface_unix \<Rightarrow> bool \<times> SerialInterface_unix" where
  "select_thread_unix r s =
     (if running s \<and> is_open_unix s then
        let s1 = sys (Sys_select (port_fd s + 1)) s
        in if select_n r < 0 then (False, s1)
           else if select_n r = 0 then (True, s1)
           else if select_isset r then (True, on_receive_data s1)
           else (True, s1)
      else (False, s))"

definition set_port_unix :: "string \<Rightarrow> SerialInterface_unix \<Rightarrow> string \<times> SerialInterface_unix" where
  "set_port_unix p s =
     (let s1 = (if \<not> is_open_unix s then s\<lparr>port := p\<rparr> else s) in (port s1, s1))"

definition set_baud_unix :: "64 word \<Rightarrow> SerialInterface_unix \<Rightarrow> 64 word \<times> SerialInterface_unix" where
  "set_baud_unix b s = (let s1 = configure_port_unix (s\<lparr>baud := b\<rparr>) in (baud s1, s1))"

definition set_bits_unix :: "int \<Rightarrow> SerialInterface_unix \<Rightarrow> int \<times> SerialInterface_unix" where
  "set_bits_unix b s =
     (let s1 = configure_port_unix (if b \<ge> 5 \<and> b \<le> 8 then s\<lparr>bits := b\<rparr> else s)
      in (bits s1, s1))"

definition set_flow_unix :: "int \<Rightarrow> SerialInterface_unix \<Rightarrow> int \<times> SerialInterface_unix" where
  "set_flow_unix f s =
     (let s1 = configure_port_unix (if f \<ge> 0 \<and> f \<le> 2 then s\<lparr>flow := f\<rparr> else s)
      in (flow s1, s1))"

definition set_parity_unix :: "int \<Rightarrow> SerialInterface_unix \<Rightarrow> int \<times> SerialInterface_unix" where
  "set_parity_unix p s =
     (let s1 = configure_port_unix (if p \<ge> 0 \<and> p \<le> 2 then s\<lparr>parity := p\<rparr> else s)
      in (parity s1, s1))"

subsection \<open>The \<^verbatim>\<open>_WIN32\<close> build\<close>

definition baud_dcb :: "64 word \<Rightarrow> DWORD" where
  "baud_dcb b =
     (if b = 300 then CBR_300
      else if b = 600 then CBR_600
      else if b = 1200 then CBR_1200
      else if b = 2400 then CBR_2400
      else if b = 4800 then CBR_4800
      else if b = 9600 then CBR_9600
      else if b = 19200 then CBR_19200
      else if b = 38400 then CBR_38400
      else if b = 57600 then CBR_57600
      else if b = 115200 then CBR_115200
      else CBR_19200)"

definition parity_dcb :: "int \<Rightarrow> DCB \<Rightarrow> DCB" where
  "parity_dcb p d =
     (if p = SI_PARITY_NONE then d\<lparr>Parity := NOPARITY\<rparr>
      else if p = SI_PARITY_ODD then d\<lparr>Parity := ODDPARITY\<rparr>
      else if p = SI_PARITY_EVEN then d\<lparr>Parity := EVENPARITY\<rparr>
      else d)"

definition flow_dcb :: "int \<Rightarrow> DCB \<Rightarrow> DCB" where
  "flow_dcb f d =
     (if f = SI_FLOW_NONE then
        d\<lparr>fOutxCtsFlow := False, fOutxDsrFlow := False, fDtrControl := DTR_CONTROL_DISABLE,
          fOutX := False, fInX := False, fRtsControl := DTR_CONTROL_DISABLE\<rparr>
      else if f = SI_FLOW_HARDWARE then
        d\<lparr>fOutxCtsFlow := True, fOutxDsrFlow := True, fDtrControl := DTR_CONTROL_HANDSHAKE,
          fOutX := False, fInX := False, fRtsControl := DTR_CONTROL_HANDSHAKE\<rparr>
      else if f = SI_FLOW_XON_XOFF then
        d\<lparr>fOutxCtsFlow := False, fOutxDsrFlow := False, fDtrControl := DTR_CONTROL_DISABLE,
          fOutX := True, fInX := True, fRtsControl := DTR_CONTROL_DISABLE\<rparr>
      else d)"

definition assemble_dcb :: "SerialInterface_win32 \<Rightarrow> DCB" where
  "assemble_dcb s =
     flow_dcb (flow s) (parity_dcb (parity s)
       ((dcb_serial_params s)
          \<lparr>BaudRate := baud_dcb (baud s), ByteSize := word_of_int (bits s),
           StopBits := ONESTOPBIT\<rparr>))"

definition configure_port_win32 :: "SerialInterface_win32 \<Rightarrow> SerialInterface_win32" where
  "configure_port_win32 s =
     (let d = assemble_dcb s
      in sys (Win_SetCommState (h_port s) d) (s\<lparr>dcb_serial_params := d\<rparr>))"

text \<open>
  \<^verbatim>\<open>close_port\<close> calls itself when \<^verbatim>\<open>SetCommMask\<close> fails, with the port still open. The
  list holds the results of the successive \<^verbatim>\<open>SetCommMask\<close> calls; the recursion goes on as
  long as they are failures, and \<open>None\<close> says that it has not come to an end within the
  results given (a call that fails forever never lets \<^verbatim>\<open>close_port\<close> return).
\<close>

fun close_port_win32 ::
  "bool list \<Rightarrow> SerialInterface_win32 \<Rightarrow> (status \<times> SerialInterface_win32) option" where
  "close_port_win32 ms s =
     (if is_open_win32 s then
        (case ms of
           [] \<Rightarrow> None
         | m # ms' \<Rightarrow>
             let s1 = sys (Win_SetCommMask (h_port s) EV_RXCHAR) (s\<lparr>running := False\<rparr>)
             in if \<not> m then
                  (case close_port_win32 ms' s1 of
                     None \<Rightarrow> None
                   | Some (_, s2) \<Rightarrow> Some (SI_ERROR, s2))
                else
                  let s2 = sys (Win_SetCommState (h_port s1) (dcb_serial_params_saved s1)) s1;
                      s3 = sys (Win_CloseHandle (h_port s2)) s2;
                      s4 = sys (Win_CloseHandle (h_overlapped s3)) s3;
                      s5 = sys (Win_CloseHandle (h_overlapped_thread s4)) s4;
                      s6 = s5\<lparr>h_port := INVALID_HANDLE_VALUE,
                              h_overlapped := INVALID_HANDLE_VALUE,
                              h_overlapped_thread := INVALID_HANDLE_VALUE\<rparr>
                  in Some (SI_SUCCESS, emit Port_closed s6))
      else Some (SI_SUCCESS, s))"

text \<open>
  The replies to the calls of \<^verbatim>\<open>open_port\<close>, in the order it makes them. \<open>op_close\<close> are
  the \<^verbatim>\<open>SetCommMask\<close> results for the \<^verbatim>\<open>close_port\<close> at the start, \<open>op_close_fail\<close> those
  for the \<^verbatim>\<open>close_port\<close> of the failure path taken (at most one is). \<^verbatim>\<open>GetCommState\<close> and
  \<^verbatim>\<open>GetCommTimeouts\<close> reply \<open>None\<close> when they fail.
\<close>

record open_reply_win32 =
  op_close :: "bool list"
  op_CreateFile :: HANDLE
  op_SetCommMask :: bool
  op_GetCommState :: "DCB option"
  op_GetCommTimeouts :: "COMMTIMEOUTS option"
  op_SetCommTimeouts :: bool
  op_CreateEvent1 :: HANDLE
  op_CreateEvent2 :: HANDLE
  op_close_fail :: "bool list"

definition zero_DCB :: DCB where
  "zero_DCB =
     \<lparr>DCBlength = 0, BaudRate = 0, ByteSize = 0, StopBits = 0, Parity = 0,
      fOutxCtsFlow = False, fOutxDsrFlow = False, fDtrControl = 0, fOutX = False,
      fInX = False, fRtsControl = 0\<rparr>"

definition sizeof_DCB :: DWORD where "sizeof_DCB = 28"

text \<open>The device name prefix given to \<^verbatim>\<open>CreateFile\<close>: backslash, backslash, dot, backslash.\<close>

definition device_prefix :: string where
  "device_prefix = [CHR 0x5C, CHR 0x5C, CHR ''.'', CHR 0x5C]"

definition fail_open_win32 ::
  "bool list \<Rightarrow> SerialInterface_win32 \<Rightarrow> (status \<times> SerialInterface_win32) option" where
  "fail_open_win32 ms s =
     (case close_port_win32 ms s of None \<Rightarrow> None | Some (_, s') \<Rightarrow> Some (SI_ERROR, s'))"

text \<open>
  \<^verbatim>\<open>open_port\<close>, cut at its tests into four pieces that follow one another: up to
  \<^verbatim>\<open>SetCommMask\<close>, the control block, the timeouts, the two events and the thread.
\<close>

definition open_events_win32 ::
  "open_reply_win32 \<Rightarrow> SerialInterface_win32 \<Rightarrow> (status \<times> SerialInterface_win32) option" where
  "open_events_win32 e s =
     (let s1 = (sys Win_CreateEvent s)\<lparr>h_overlapped := op_CreateEvent1 e\<rparr>
      in if h_overlapped s1 = INVALID_HANDLE_VALUE then fail_open_win32 (op_close_fail e) s1
         else
           let s2 = (sys Win_CreateEvent s1)\<lparr>h_overlapped_thread := op_CreateEvent2 e\<rparr>
           in if h_overlapped_thread s2 = INVALID_HANDLE_VALUE
              then fail_open_win32 (op_close_fail e) s2
              else Some (SI_SUCCESS, emit Port_opened (launch_select_thread s2)))"

definition open_timeouts_win32 ::
  "open_reply_win32 \<Rightarrow> SerialInterface_win32 \<Rightarrow> (status \<times> SerialInterface_win32) option" where
  "open_timeouts_win32 e s =
     (let s1 = sys (Win_GetCommTimeouts (h_port s)) s
      in case op_GetCommTimeouts e of
           None \<Rightarrow> fail_open_win32 (op_close_fail e) s1
         | Some ct \<Rightarrow>
             let timeouts = ct\<lparr>ReadIntervalTimeout := MAXDWORD,
                               ReadTotalTimeoutConstant := 0,
                               ReadTotalTimeoutMultiplier := 0\<rparr>;
                 s2 = sys (Win_SetCommTimeouts (h_port s1) timeouts) s1
             in if \<not> op_SetCommTimeouts e then fail_open_win32 (op_close_fail e) s2
                else open_events_win32 e s2)"

definition open_state_win32 ::
  "open_reply_win32 \<Rightarrow> SerialInterface_win32 \<Rightarrow> (status \<times> SerialInterface_win32) option" where
  "open_state_win32 e s =
     (let s1 = sys (Win_GetCommState (h_port s))
                 (s\<lparr>dcb_serial_params := zero_DCB\<lparr>DCBlength := sizeof_DCB\<rparr>\<rparr>)
      in case op_GetCommState e of
           None \<Rightarrow> fail_open_win32 (op_close_fail e) s1
         | Some d \<Rightarrow>
             open_timeouts_win32 e
               (configure_port_win32
                  (s1\<lparr>dcb_serial_params := d, dcb_serial_params_saved := d\<rparr>)))"

definition open_port_win32 ::
  "open_reply_win32 \<Rightarrow> SerialInterface_win32 \<Rightarrow> (status \<times> SerialInterface_win32) option" where
  "open_port_win32 e s =
     (case close_port_win32 (op_close e) s of
        None \<Rightarrow> None
      | Some (_, s0) \<Rightarrow>
          let s1 = (sys (Win_CreateFile (device_prefix @ port s0)) s0)
                     \<lparr>h_port := op_CreateFile e\<rparr>
          in if \<not> is_open_win32 s1 then Some (SI_ERROR, s1)
             else
               let s2 = sys (Win_SetCommMask (h_port s1) EV_RXCHAR) s1
               in if \<not> op_SetCommMask e then fail_open_win32 (op_close_fail e) s2
                  else open_state_win32 e s2)"

text \<open>
  The replies to the calls of \<^verbatim>\<open>write\<close> and \<^verbatim>\<open>read\<close>: the result of \<^verbatim>\<open>WriteFile\<close> or
  \<^verbatim>\<open>ReadFile\<close> and what it leaves in \<^verbatim>\<open>d\<close>, \<^verbatim>\<open>GetLastError()\<close> after a failure, the
  result of \<^verbatim>\<open>WaitForSingleObject\<close>, the result of \<^verbatim>\<open>GetOverlappedResult\<close> and what it
  leaves in \<^verbatim>\<open>d\<close>; for \<^verbatim>\<open>read\<close> also the buffer as the calls leave it. The number of
  bytes is a \<^verbatim>\<open>DWORD\<close> parameter of \<^verbatim>\<open>WriteFile\<close> and \<^verbatim>\<open>ReadFile\<close>: the \<^verbatim>\<open>gsize\<close> count
  reaches them cut to 32 bits.
\<close>

record io_reply_win32 =
  io_ok :: bool
  io_d :: DWORD
  io_last_error :: DWORD
  io_wait :: DWORD
  io_overlapped_ok :: bool
  io_overlapped_d :: DWORD
  io_buf :: "8 word list"

definition write_win32 ::
  "io_reply_win32 \<Rightarrow> SerialInterface_win32 \<Rightarrow> 8 word list \<Rightarrow> gsize \<Rightarrow> gsize
     \<Rightarrow> status \<times> SerialInterface_win32 \<times> gsize" where
  "write_win32 r s buf count bytes_written =
     (if \<not> is_open_win32 s then (SI_PORT_NOT_OPEN, s, bytes_written)
      else
        let s1 = sys (Win_WriteFile (h_port s) buf (ucast count) (h_overlapped s)) s
        in if \<not> io_ok r then
             if io_last_error r \<noteq> ERROR_IO_PENDING then (SI_ERROR, s1, bytes_written)
             else
               let s2 = sys (Win_WaitForSingleObject (h_overlapped s1)) s1
               in if io_wait r = WAIT_OBJECT_0 then
                    let s3 = sys (Win_GetOverlappedResult (h_port s2) True) s2
                    in if \<not> io_overlapped_ok r then (SI_ERROR, s3, bytes_written)
                       else (SI_SUCCESS, s3, ucast (io_overlapped_d r))
                  else if io_wait r = WAIT_TIMEOUT then
                    (SI_ERROR, sys (Win_CancelIo (h_port s2)) s2, bytes_written)
                  else (SI_ERROR, s2, bytes_written)
           else (SI_SUCCESS, sys (Win_SetEvent (h_overlapped s1)) s1, ucast (io_d r)))"

definition read_win32 ::
  "io_reply_win32 \<Rightarrow> SerialInterface_win32 \<Rightarrow> 8 word list \<Rightarrow> gsize \<Rightarrow> gsize
     \<Rightarrow> status \<times> SerialInterface_win32 \<times> 8 word list \<times> gsize" where
  "read_win32 r s buf count bytes_read =
     (if \<not> is_open_win32 s then (SI_PORT_NOT_OPEN, s, buf, bytes_read)
      else
        let s1 = sys (Win_ReadFile (h_port s) (ucast count) (h_overlapped s)) s
        in if \<not> io_ok r then
             if io_last_error r \<noteq> ERROR_IO_PENDING then (SI_ERROR, s1, io_buf r, bytes_read)
             else
               let s2 = sys (Win_WaitForSingleObject (h_overlapped s1)) s1
               in if io_wait r = WAIT_OBJECT_0 then
                    let s3 = sys (Win_GetOverlappedResult (h_port s2) False) s2
                    in if \<not> io_overlapped_ok r then (SI_ERROR, s3, io_buf r, bytes_read)
                       else (SI_SUCCESS, s3, io_buf r, ucast (io_overlapped_d r))
                  else if io_wait r = WAIT_TIMEOUT then
                    (SI_ERROR, sys (Win_CancelIo (h_port s2)) s2, io_buf r, bytes_read)
                  else (SI_ERROR, s2, io_buf r, bytes_read)
           else (SI_SUCCESS, sys (Win_SetEvent (h_overlapped s1)) s1, io_buf r, ucast (io_d r)))"



definition set_port_win32 :: "string \<Rightarrow> SerialInterface_win32 \<Rightarrow> string \<times> SerialInterface_win32" where
  "set_port_win32 p s =
     (let s1 = (if \<not> is_open_win32 s then s\<lparr>port := p\<rparr> else s) in (port s1, s1))"

definition set_baud_win32 :: "64 word \<Rightarrow> SerialInterface_win32 \<Rightarrow> 64 word \<times> SerialInterface_win32" where
  "set_baud_win32 b s = (let s1 = configure_port_win32 (s\<lparr>baud := b\<rparr>) in (baud s1, s1))"

definition set_bits_win32 :: "int \<Rightarrow> SerialInterface_win32 \<Rightarrow> int \<times> SerialInterface_win32" where
  "set_bits_win32 b s =
     (let s1 = configure_port_win32 (if b \<ge> 5 \<and> b \<le> 8 then s\<lparr>bits := b\<rparr> else s)
      in (bits s1, s1))"

definition set_flow_win32 :: "int \<Rightarrow> SerialInterface_win32 \<Rightarrow> int \<times> SerialInterface_win32" where
  "set_flow_win32 f s =
     (let s1 = configure_port_win32 (if f \<ge> 0 \<and> f \<le> 2 then s\<lparr>flow := f\<rparr> else s)
      in (flow s1, s1))"

definition set_parity_win32 :: "int \<Rightarrow> SerialInterface_win32 \<Rightarrow> int \<times> SerialInterface_win32" where
  "set_parity_win32 p s =
     (let s1 = configure_port_win32 (if p \<ge> 0 \<and> p \<le> 2 then s\<lparr>parity := p\<rparr> else s)
      in (parity s1, s1))"

subsection \<open>The caller and the watcher threads, interleaved\<close>

text \<open>
  The object is used from two sides: the caller's thread runs \<^verbatim>\<open>open_port\<close>,
  \<^verbatim>\<open>close_port\<close>, \<^verbatim>\<open>read\<close> and \<^verbatim>\<open>write\<close>, and each thread started by
  \<^verbatim>\<open>launch_select_thread\<close> runs the loop of \<^verbatim>\<open>select_thread\<close>. An action is one call of
  the caller or one turn of the loop of one live thread; a turn that ends the loop ends
  that thread. The threads all run the same code on the same object, so their number is
  all that tells them apart. A turn is taken as one step, the wait inside it included;
  with no live thread a watcher turn does nothing.
\<close>

datatype action_unix =
    Call_open open_reply_unix
  | Call_close
  | Call_read read_reply_unix "8 word list" gsize gsize
  | Call_write int "8 word list" gsize gsize
  | Watcher_turn select_reply

definition thread_turn_unix :: "select_reply \<Rightarrow> SerialInterface_unix \<Rightarrow> SerialInterface_unix" where
  "thread_turn_unix r s =
     (if threads s = 0 then s
      else case select_thread_unix r s of
             (go_on, s') \<Rightarrow> if go_on then s' else s'\<lparr>threads := threads s' - 1\<rparr>)"

fun step_unix :: "action_unix \<Rightarrow> SerialInterface_unix \<Rightarrow> SerialInterface_unix" where
  "step_unix (Call_open e) s = snd (open_port_unix e s)"
| "step_unix Call_close s = snd (close_port_unix s)"
| "step_unix (Call_read r buf n br) s = fst (snd (read_unix r s buf n br))"
| "step_unix (Call_write ret buf n bw) s = fst (snd (write_unix ret s buf n bw))"
| "step_unix (Watcher_turn r) s = thread_turn_unix r s"

definition run_unix :: "action_unix list \<Rightarrow> SerialInterface_unix \<Rightarrow> SerialInterface_unix" where
  "run_unix as s = foldl (\<lambda>s a. step_unix a s) s as"







subsection \<open>\<^verbatim>\<open>enumerate_ports\<close>\<close>

text \<open>
  What the directory scans of the \<^verbatim>\<open>__unix__\<close> build see. An entry of \<^verbatim>\<open>/dev/\<close> comes
  with the results of the probe made when its name starts with \<^verbatim>\<open>ttyS\<close>: whether
  \<^verbatim>\<open>open\<close> succeeds, whether the \<^verbatim>\<open>TIOCGSERIAL\<close> \<^verbatim>\<open>ioctl\<close> succeeds, and the \<^verbatim>\<open>port\<close> field
  it fills in. An entry of \<^verbatim>\<open>/dev/serial/by-id/\<close> comes with the contents of \<^verbatim>\<open>buf\<close> after
  \<^verbatim>\<open>realpath\<close>. The \<^verbatim>\<open>if\<close> on the result of \<^verbatim>\<open>realpath\<close> ends in a semicolon, so the block
  after it runs in every case and \<^verbatim>\<open>buf\<close> is always pushed.
\<close>

record dev_entry =
  d_name :: string
  probe_open :: bool
  probe_ioctl :: bool
  serinfo_port :: "32 word"

record byid_entry =
  link_name :: string
  resolved_buf :: string

fun scan_dev :: "dev_entry list \<Rightarrow> string list \<Rightarrow> string list" where
  "scan_dev [] acc = acc"
| "scan_dev (e # es) acc =
     (let f = d_name e; d = ''/dev/'' @ f
      in if take 4 f = ''ttyS'' then
           if \<not> probe_open e then scan_dev es acc
           else if \<not> probe_ioctl e then scan_dev es acc
           else if serinfo_port e \<noteq> 0 then scan_dev es (acc @ [d])
           else scan_dev es acc
         else if take 6 f = ''ttyUSB'' then scan_dev es (acc @ [d])
         else scan_dev es acc)"

fun scan_byid :: "byid_entry list \<Rightarrow> string list \<Rightarrow> string list" where
  "scan_byid [] acc = acc"
| "scan_byid (e # es) acc =
     (if link_name e = ''.'' \<or> link_name e = ''..'' then scan_byid es acc
      else scan_byid es (acc @ [resolved_buf e]))"

text \<open>
  The \<^verbatim>\<open>_WIN32\<close> build keeps the names of the device table on which
  \<^verbatim>\<open>sscanf(ptr, "COM%d", &port)\<close> converts one item: the three letters, then what \<^verbatim>\<open>%d\<close>
  accepts (white space, an optional sign, at least one digit).
\<close>

definition c_isspace :: "char \<Rightarrow> bool" where
  "c_isspace c = ((of_char c :: nat) = 32 \<or> (9 \<le> (of_char c :: nat) \<and> (of_char c :: nat) \<le> 13))"

definition c_isdigit :: "char \<Rightarrow> bool" where
  "c_isdigit c = (48 \<le> (of_char c :: nat) \<and> (of_char c :: nat) \<le> 57)"

definition scans_decimal :: "string \<Rightarrow> bool" where
  "scans_decimal s =
     (let s1 = dropWhile c_isspace s;
          s2 = (case s1 of [] \<Rightarrow> [] | c # cs \<Rightarrow> if c = CHR ''+'' \<or> c = CHR ''-'' then cs else s1)
      in case s2 of [] \<Rightarrow> False | c # _ \<Rightarrow> c_isdigit c)"

definition scans_COM :: "string \<Rightarrow> bool" where
  "scans_COM s = (take 3 s = ''COM'' \<and> scans_decimal (drop 3 s))"

text \<open>
  Modelled from the spec: the comparator \<^verbatim>\<open>doj::alphanum_less\<close> comes from
  \<^verbatim>\<open>alphanum.h\<close>, which is not among the sources. The spec calls it natural order: a
  string ordering that compares embedded numeric runs numerically rather than character
  by character. A string is cut into its maximal runs of digits, each read as a number,
  and its other characters; two strings are compared item by item, a proper prefix
  first. The spec leaves open how a number compares with a character; here the number
  comes first.
\<close>

fun alphanum_items :: "nat option \<Rightarrow> string \<Rightarrow> (nat \<times> nat) list" where
  "alphanum_items None [] = []"
| "alphanum_items (Some n) [] = [(0, n)]"
| "alphanum_items acc (c # cs) =
     (if c_isdigit c then
        alphanum_items
          (Some (10 * (case acc of None \<Rightarrow> 0 | Some n \<Rightarrow> n) + (of_char c - 48))) cs
      else
        (case acc of None \<Rightarrow> [] | Some n \<Rightarrow> [(0, n)]) @ (1, of_char c) # alphanum_items None cs)"

text \<open>Modelled from the spec: the items of a whole string, which the comparator compares.\<close>

definition alphanum_key :: "string \<Rightarrow> (nat \<times> nat) list" where
  "alphanum_key s = alphanum_items None s"

text \<open>
  Modelled from the spec: \<^verbatim>\<open>doj::alphanum_less\<close>, the natural order as a comparison of the
  lists of items.
\<close>

definition alphanum_less :: "string \<Rightarrow> string \<Rightarrow> bool" where
  "alphanum_less a b = (alphanum_key a < alphanum_key b)"

text \<open>
  \<^verbatim>\<open>std::sort\<close> with that comparator leaves a permutation of the elements (every string
  as often as before) in which none is less than one before it. In which order it leaves
  elements that compare equal, the C++ standard does not say: that is up to the
  implementation, and \<open>sort_outcome\<close> holds of every list it may leave.
\<close>

definition sort_outcome :: "string list \<Rightarrow> string list \<Rightarrow> bool" where
  "sort_outcome xs ys \<longleftrightarrow>
     list_all (\<lambda>x. count_list ys x = count_list xs x) (xs @ ys)
     \<and> sorted_wrt (\<lambda>a b. \<not> alphanum_less b a) ys"

text \<open>
  The implementation's part is the argument \<open>leave\<close>, the list it leaves for a given
  one. A list that is no outcome of a sort is not something \<^verbatim>\<open>std::sort\<close> can leave; the
  model then takes the list insertion sort leaves, which is one.
\<close>

definition std_sort :: "(string list \<Rightarrow> string list) \<Rightarrow> string list \<Rightarrow> string list" where
  "std_sort leave xs =
     (if sort_outcome xs (leave xs) then leave xs else sort_key alphanum_key xs)"

text \<open>
  \<^verbatim>\<open>std::unique\<close> with \<^verbatim>\<open>erase\<close> keeps the first of every run of equal neighbours:
  \<open>remdups_adj\<close>.
\<close>

definition enumerate_ports_unix ::
  "(string list \<Rightarrow> string list) \<Rightarrow> dev_entry list option \<Rightarrow> byid_entry list option
     \<Rightarrow> string list" where
  "enumerate_ports_unix leave dev byid =
     (let l1 = (case dev of None \<Rightarrow> [] | Some es \<Rightarrow> scan_dev es []);
          l2 = (case byid of None \<Rightarrow> l1 | Some bs \<Rightarrow> scan_byid bs l1)
      in remdups_adj (std_sort leave l2))"

definition enumerate_ports_win32 ::
  "(string list \<Rightarrow> string list) \<Rightarrow> string list \<Rightarrow> string list" where
  "enumerate_ports_win32 leave names = remdups_adj (std_sort leave (filter scans_COM names))"

subsection \<open>Properties to be read off a control block, and values for examples\<close>

definition supported_bauds :: "64 word set" where
  "supported_bauds = {300, 600, 1200, 2400, 4800, 9600, 19200, 38400, 57600, 115200}"

text \<open>The rate a \<^verbatim>\<open>c_cflag\<close> carries: its \<^verbatim>\<open>CBAUD\<close> bits, read back through the table of rates.\<close>

definition cflag_rate :: "tcflag_t \<Rightarrow> nat option" where
  "cflag_rate cf =
     (let x = cf AND CBAUD in
      if x = B300 then Some 300
      else if x = B600 then Some 600
      else if x = B1200 then Some 1200
      else if x = B2400 then Some 2400
      else if x = B4800 then Some 4800
      else if x = B9600 then Some 9600
      else if x = B19200 then Some 19200
      else if x = B38400 then Some 38400
      else if x = B57600 then Some 57600
      else if x = B115200 then Some 115200
      else None)"

definition zero_termios :: termios where
  "zero_termios =
     \<lparr>c_iflag = 0, c_oflag = 0, c_cflag = 0, c_lflag = 0, c_line = 0,
      c_cc = replicate 32 0, c_ispeed = 0, c_ospeed = 0\<rparr>"

definition example_unix :: SerialInterface_unix where
  "example_unix = SerialInterface_unix zero_termios zero_termios"

definition example_win32 :: SerialInterface_win32 where
  "example_win32 = SerialInterface_win32 zero_DCB zero_DCB"

definition example_open_unix :: open_reply_unix where
  "example_open_unix = \<lparr>open_fd = 3, open_attr = Some zero_termios\<rparr>"

definition example_open_win32 :: open_reply_win32 where
  "example_open_win32 =
     \<lparr>op_close = [], op_CreateFile = 100, op_SetCommMask = True,
      op_GetCommState = Some zero_DCB,
      op_GetCommTimeouts = Some \<lparr>ReadIntervalTimeout = 0, ReadTotalTimeoutMultiplier = 0,
        ReadTotalTimeoutConstant = 0, WriteTotalTimeoutMultiplier = 0,
        WriteTotalTimeoutConstant = 0\<rparr>,
      op_SetCommTimeouts = True, op_CreateEvent1 = 101, op_CreateEvent2 = 102,
      op_close_fail = []\<rparr>"

text \<open>A transfer that fails at once with \<^verbatim>\<open>ERROR_ACCESS_DENIED\<close> (5).\<close>

definition example_io_error :: io_reply_win32 where
  "example_io_error =
     \<lparr>io_ok = False, io_d = 0, io_last_error = 5, io_wait = 0, io_overlapped_ok = False,
      io_overlapped_d = 0, io_buf = [0, 0, 0]\<rparr>"

text \<open>A \<^verbatim>\<open>select\<close> that times out.\<close>

definition example_timeout :: select_reply where
  "example_timeout = \<lparr>select_n = 0, select_isset = False\<rparr>"


text \<open>
  A \<^verbatim>\<open>/dev/\<close> with two USB serial entries whose numbers differ in a leading zero, and one
  link under \<^verbatim>\<open>/dev/serial/by-id/\<close> that resolves to the first of them.
\<close>

definition example_dev :: "dev_entry list" where
  "example_dev =
     [\<lparr>d_name = ''ttyUSB01'', probe_open = False, probe_ioctl = False, serinfo_port = 0\<rparr>,
      \<lparr>d_name = ''ttyUSB1'', probe_open = False, probe_ioctl = False, serinfo_port = 0\<rparr>]"

definition example_byid :: "byid_entry list" where
  "example_byid = [\<lparr>link_name = ''usb-FTDI-if00-port0'', resolved_buf = ''/dev/ttyUSB01''\<rparr>]"

subsection \<open>Predicates used in the statements\<close>


text \<open>
  What holds of the list \<^verbatim>\<open>enumerate_ports\<close> returns: no element is less than one before
  it; no two neighbours are equal; it is free of duplicates when the key is injective on
  its elements; an element ending in 2 stands before one with the same prefix ending in
  10.
\<close>

definition natural_order_result :: "string list \<Rightarrow> bool" where
  "natural_order_result ys \<longleftrightarrow>
     sorted_wrt (\<lambda>a b. \<not> alphanum_less b a) ys
     \<and> distinct_adj ys
     \<and> (inj_on alphanum_key (set ys) \<longrightarrow> distinct ys)
     \<and> (\<forall>p i j. i < length ys \<and> j < length ys \<and> ys ! i = p @ ''2'' \<and> ys ! j = p @ ''10''
           \<longrightarrow> i < j)"

section \<open>Properties\<close>

lemma closed_unix_rw:
  "\<not> is_open_unix s \<Longrightarrow> write_unix ret s buf n bw = (SI_PORT_NOT_OPEN, s, bw)"
  "\<not> is_open_unix s \<Longrightarrow> read_unix r s buf n br = (SI_PORT_NOT_OPEN, s, buf, br)"
  by (simp_all add: write_unix_def read_unix_def)

lemma closed_win32_rw:
  "\<not> is_open_win32 w \<Longrightarrow> write_win32 r w buf n bw = (SI_PORT_NOT_OPEN, w, bw)"
  "\<not> is_open_win32 w \<Longrightarrow> read_win32 r w buf n br = (SI_PORT_NOT_OPEN, w, buf, br)"
  by (simp_all add: write_win32_def read_win32_def)

lemma nonbaud_or: "x AND CBAUD = 0 \<Longrightarrow> (cf OR x) AND CBAUD = cf AND CBAUD"
  by (simp add: bit.conj_disj_distrib2)

lemma nonbaud_consts:
  "CS5 AND CBAUD = 0" "CS6 AND CBAUD = 0" "CS7 AND CBAUD = 0" "CS8 AND CBAUD = 0"
  "PARENB AND CBAUD = 0" "(PARODD OR PARENB) AND CBAUD = 0" "CREAD AND CBAUD = 0"
  "CLOCAL AND CBAUD = 0" "CRTSCTS AND CBAUD = 0"
  by (simp_all add: CS5_def CS6_def CS7_def CS8_def PARENB_def PARODD_def CREAD_def
      CLOCAL_def CRTSCTS_def CBAUD_def)

lemma bits_cflag_baud: "bits_cflag n cf AND CBAUD = cf AND CBAUD"
  by (simp add: bits_cflag_def nonbaud_or nonbaud_consts)

lemma parity_cflag_baud: "parity_cflag p cf AND CBAUD = cf AND CBAUD"
  by (simp add: parity_cflag_def nonbaud_or nonbaud_consts)

lemma flow_flags_baud: "fst (flow_flags f (cf, i)) AND CBAUD = cf AND CBAUD"
  by (simp add: flow_flags_def nonbaud_or nonbaud_consts)

lemma assemble_termios_baud:
  "c_cflag (assemble_termios s) AND CBAUD = baud_cflag (baud s) AND CBAUD"
  by (simp add: assemble_termios_def Let_def flow_flags_baud nonbaud_or nonbaud_consts
      parity_cflag_baud bits_cflag_baud)

lemma baud_cflag_rate:
  "b \<in> supported_bauds \<Longrightarrow> cflag_rate (baud_cflag b AND CBAUD) = Some (unat b)"
  by (auto simp add: supported_bauds_def cflag_rate_def baud_cflag_def Let_def B300_def B600_def B1200_def
      B2400_def B4800_def B9600_def B19200_def B38400_def B57600_def B115200_def CBAUD_def)

lemma baud_cflag_fallback: "b \<notin> supported_bauds \<Longrightarrow> baud_cflag b = baud_cflag 19200"
  by (simp add: supported_bauds_def baud_cflag_def)

lemma baud_dcb_rate: "b \<in> supported_bauds \<Longrightarrow> unat (baud_dcb b) = unat b"
  by (auto simp add: supported_bauds_def baud_dcb_def CBR_300_def CBR_600_def CBR_1200_def
      CBR_2400_def CBR_4800_def CBR_9600_def CBR_19200_def CBR_38400_def CBR_57600_def
      CBR_115200_def)

lemma baud_dcb_fallback: "b \<notin> supported_bauds \<Longrightarrow> baud_dcb b = baud_dcb 19200"
  by (simp add: supported_bauds_def baud_dcb_def)

lemma configure_port_unix_fields [simp]:
  "baud (configure_port_unix s) = baud s" "bits (configure_port_unix s) = bits s"
  "port (configure_port_unix s) = port s" "port_fd (configure_port_unix s) = port_fd s"
  "emitted (configure_port_unix s) = emitted s" "threads (configure_port_unix s) = threads s"
  "running (configure_port_unix s) = running s"
  "port_termios (configure_port_unix s) = assemble_termios s"
  by (simp_all add: configure_port_unix_def sys_def Let_def)

lemma configure_port_win32_fields [simp]:
  "baud (configure_port_win32 w) = baud w" "bits (configure_port_win32 w) = bits w"
  "port (configure_port_win32 w) = port w" "h_port (configure_port_win32 w) = h_port w"
  "emitted (configure_port_win32 w) = emitted w" "threads (configure_port_win32 w) = threads w"
  "running (configure_port_win32 w) = running w"
  "dcb_serial_params (configure_port_win32 w) = assemble_dcb w"
  by (simp_all add: configure_port_win32_def sys_def Let_def)

lemma BaudRate_assemble_dcb: "BaudRate (assemble_dcb w) = baud_dcb (baud w)"
  by (simp add: assemble_dcb_def flow_dcb_def parity_dcb_def)

lemma assemble_termios_cong:
  "baud_cflag b = baud_cflag b' \<Longrightarrow>
   assemble_termios (s\<lparr>baud := b\<rparr>) = assemble_termios (s\<lparr>baud := b'\<rparr>)"
  by (simp add: assemble_termios_def)

lemma assemble_dcb_cong:
  "baud_dcb b = baud_dcb b' \<Longrightarrow> assemble_dcb (w\<lparr>baud := b\<rparr>) = assemble_dcb (w\<lparr>baud := b'\<rparr>)"
  by (simp add: assemble_dcb_def)

text \<open>
  Claim C2. For a baud value of the supported set, \<^verbatim>\<open>configure_port\<close> assembles a
  control block that carries that rate; for any other value the result is the one
  obtained for 19200 (the stored \<open>baud\<close> apart, which \<^verbatim>\<open>configure_port\<close> does not
  touch).
\<close>

theorem C2_configure_baud:
  "(b \<in> supported_bauds \<longrightarrow>
      cflag_rate (c_cflag (port_termios (configure_port_unix (s\<lparr>baud := b\<rparr>)))) = Some (unat b)
      \<and> unat (BaudRate (dcb_serial_params (configure_port_win32 (w\<lparr>baud := b\<rparr>)))) = unat b)
   \<and> (b \<notin> supported_bauds \<longrightarrow>
      configure_port_unix (s\<lparr>baud := b\<rparr>) = (configure_port_unix (s\<lparr>baud := 19200\<rparr>))\<lparr>baud := b\<rparr>
      \<and> configure_port_win32 (w\<lparr>baud := b\<rparr>)
          = (configure_port_win32 (w\<lparr>baud := 19200\<rparr>))\<lparr>baud := b\<rparr>)"
proof (intro conjI impI)
  assume b: "b \<in> supported_bauds"
  have "cflag_rate (c_cflag (assemble_termios (s\<lparr>baud := b\<rparr>)))
        = cflag_rate (baud_cflag b AND CBAUD)"
    using assemble_termios_baud [of "s\<lparr>baud := b\<rparr>"] by (simp add: cflag_rate_def)
  with b show "cflag_rate (c_cflag (port_termios (configure_port_unix (s\<lparr>baud := b\<rparr>))))
               = Some (unat b)"
    by (simp add: baud_cflag_rate)
  from b show "unat (BaudRate (dcb_serial_params (configure_port_win32 (w\<lparr>baud := b\<rparr>)))) = unat b"
    by (simp add: BaudRate_assemble_dcb baud_dcb_rate)
next
  assume b: "b \<notin> supported_bauds"
  show "configure_port_unix (s\<lparr>baud := b\<rparr>) = (configure_port_unix (s\<lparr>baud := 19200\<rparr>))\<lparr>baud := b\<rparr>"
    using assemble_termios_cong [OF baud_cflag_fallback [OF b], of s]
    by (simp add: configure_port_unix_def sys_def Let_def)
  show "configure_port_win32 (w\<lparr>baud := b\<rparr>) = (configure_port_win32 (w\<lparr>baud := 19200\<rparr>))\<lparr>baud := b\<rparr>"
    using assemble_dcb_cong [OF baud_dcb_fallback [OF b], of w]
    by (simp add: configure_port_win32_def sys_def Let_def)
qed

theorem C2_configure_baud_witness:
  "(9600 :: 64 word) \<in> supported_bauds
   \<and> cflag_rate (c_cflag (port_termios (configure_port_unix (example_unix\<lparr>baud := 9600\<rparr>))))
       = Some 9600
   \<and> BaudRate (dcb_serial_params (configure_port_win32 (example_win32\<lparr>baud := 9600\<rparr>))) = 9600
   \<and> (12345 :: 64 word) \<notin> supported_bauds
   \<and> configure_port_unix (example_unix\<lparr>baud := 12345\<rparr>)
       = (configure_port_unix (example_unix\<lparr>baud := 19200\<rparr>))\<lparr>baud := 12345\<rparr>
   \<and> configure_port_win32 (example_win32\<lparr>baud := 12345\<rparr>)
       = (configure_port_win32 (example_win32\<lparr>baud := 19200\<rparr>))\<lparr>baud := 12345\<rparr>"
proof -
  have a: "(9600 :: 64 word) \<in> supported_bauds" and b: "(12345 :: 64 word) \<notin> supported_bauds"
    by (simp_all add: supported_bauds_def)
  have "unat (BaudRate (dcb_serial_params (configure_port_win32 (example_win32\<lparr>baud := 9600\<rparr>))))
        = unat (9600 :: 32 word)"
    using C2_configure_baud [where b = 9600 and w = example_win32] a by simp
  then have "BaudRate (dcb_serial_params (configure_port_win32 (example_win32\<lparr>baud := 9600\<rparr>)))
             = 9600"
    by (simp only: word_unat_eq_iff)
  with a b C2_configure_baud [where b = 9600 and s = example_unix]
    C2_configure_baud [where b = 12345 and s = example_unix and w = example_win32]
  show ?thesis by simp
qed

text \<open>
  Claim C4. On a closed port \<^verbatim>\<open>read\<close> and \<^verbatim>\<open>write\<close> return \<open>SI_PORT_NOT_OPEN\<close>; the
  object comes back as it was (so no operating system call is made and no signal
  raised), and so do the buffer and the byte count passed by reference.
\<close>

theorem C4_closed_read_write:
  "(\<not> is_open_unix s \<longrightarrow>
      write_unix ret s buf n bw = (SI_PORT_NOT_OPEN, s, bw)
      \<and> read_unix r s buf n br = (SI_PORT_NOT_OPEN, s, buf, br))
   \<and> (\<not> is_open_win32 w \<longrightarrow>
      write_win32 io w buf n bw = (SI_PORT_NOT_OPEN, w, bw)
      \<and> read_win32 io w buf n br = (SI_PORT_NOT_OPEN, w, buf, br))"
  by (simp add: closed_unix_rw closed_win32_rw)

theorem C4_closed_read_write_witness:
  "\<not> is_open_unix example_unix
   \<and> write_unix 3 example_unix [1, 2, 3] 3 7 = (SI_PORT_NOT_OPEN, example_unix, 7)
   \<and> read_unix \<lparr>read_ret = 3, read_buf = [1, 2, 3]\<rparr> example_unix [0, 0, 0] 3 7
       = (SI_PORT_NOT_OPEN, example_unix, [0, 0, 0], 7)
   \<and> \<not> is_open_win32 example_win32
   \<and> write_win32 example_io_error example_win32 [1, 2, 3] 3 7
       = (SI_PORT_NOT_OPEN, example_win32, 7)
   \<and> read_win32 example_io_error example_win32 [0, 0, 0] 3 7
       = (SI_PORT_NOT_OPEN, example_win32, [0, 0, 0], 7)"
proof -
  have "\<not> is_open_unix example_unix" and "\<not> is_open_win32 example_win32"
    by (simp_all add: example_unix_def example_win32_def SerialInterface_unix_def
        SerialInterface_win32_def is_open_unix_def is_open_win32_def)
  with C4_closed_read_write [where s = example_unix and w = example_win32]
  show ?thesis by simp
qed

text \<open>
  Claim C5. On a closed port \<^verbatim>\<open>close_port\<close> returns \<open>SI_SUCCESS\<close> and the object comes
  back as it was (no port-closed signal among the rest); a freshly constructed object is
  closed.
\<close>

theorem C5_close_closed:
  "(\<not> is_open_unix s \<longrightarrow> close_port_unix s = (SI_SUCCESS, s))
   \<and> (\<not> is_open_win32 w \<longrightarrow> close_port_win32 ms w = Some (SI_SUCCESS, w))
   \<and> \<not> is_open_unix (SerialInterface_unix t0 t1)
   \<and> \<not> is_open_win32 (SerialInterface_win32 d0 d1)"
  by (simp add: close_port_unix_def is_open_unix_def is_open_win32_def
      SerialInterface_unix_def SerialInterface_win32_def)

theorem C5_close_closed_witness:
  "\<not> is_open_unix example_unix
   \<and> close_port_unix example_unix = (SI_SUCCESS, example_unix)
   \<and> \<not> is_open_win32 example_win32
   \<and> close_port_win32 [] example_win32 = Some (SI_SUCCESS, example_win32)"
  using C5_close_closed [where s = example_unix and w = example_win32 and ms = "[]"
      and ?t0.0 = zero_termios and ?t1.0 = zero_termios and ?d0.0 = zero_DCB
      and ?d1.0 = zero_DCB]
  by (simp only: example_unix_def example_win32_def simp_thms)

text \<open>
  Claim C6. \<^verbatim>\<open>set_bits\<close> with a value outside 5 to 8 leaves \<open>bits\<close> as it was; with a
  value from 5 to 8 it stores the value. It returns the stored value.
\<close>

theorem C6_set_bits:
  "(\<not> (5 \<le> b \<and> b \<le> 8) \<longrightarrow>
      bits (snd (set_bits_unix b s)) = bits s \<and> bits (snd (set_bits_win32 b w)) = bits w)
   \<and> (5 \<le> b \<and> b \<le> 8 \<longrightarrow>
      bits (snd (set_bits_unix b s)) = b \<and> bits (snd (set_bits_win32 b w)) = b)
   \<and> fst (set_bits_unix b s) = get_bits (snd (set_bits_unix b s))
   \<and> fst (set_bits_win32 b w) = get_bits (snd (set_bits_win32 b w))"
  by (simp add: set_bits_unix_def set_bits_win32_def get_bits_def Let_def)

theorem C6_set_bits_witness:
  "\<not> (5 \<le> (9 :: int) \<and> (9 :: int) \<le> 8)
   \<and> bits example_unix = 8 \<and> bits (snd (set_bits_unix 9 example_unix)) = 8
   \<and> bits example_win32 = 8 \<and> bits (snd (set_bits_win32 9 example_win32)) = 8
   \<and> (5 \<le> (7 :: int) \<and> (7 :: int) \<le> 8)
   \<and> bits (snd (set_bits_unix 7 example_unix)) = 7
   \<and> bits (snd (set_bits_win32 7 example_win32)) = 7"
proof -
  have "bits example_unix = 8" and "bits example_win32 = 8"
    by (simp_all add: example_unix_def example_win32_def SerialInterface_unix_def
        SerialInterface_win32_def)
  with C6_set_bits [where b = 9 and s = example_unix and w = example_win32]
    C6_set_bits [where b = 7 and s = example_unix and w = example_win32]
  show ?thesis by simp
qed

text \<open>
  Claim C8. On an open port \<^verbatim>\<open>set_port\<close> changes nothing and returns the identifier
  stored before; on a closed port it stores the new identifier, and nothing else
  changes.
\<close>

theorem C8_set_port:
  "(is_open_unix s \<longrightarrow> set_port_unix p s = (port s, s))
   \<and> (\<not> is_open_unix s \<longrightarrow> set_port_unix p s = (p, s\<lparr>port := p\<rparr>))
   \<and> (is_open_win32 w \<longrightarrow> set_port_win32 p w = (port w, w))
   \<and> (\<not> is_open_win32 w \<longrightarrow> set_port_win32 p w = (p, w\<lparr>port := p\<rparr>))"
  by (simp add: set_port_unix_def set_port_win32_def)

theorem C8_set_port_witness:
  "is_open_unix (example_unix\<lparr>port := ''/dev/ttyS0'', port_fd := 3\<rparr>)
   \<and> set_port_unix ''/dev/ttyUSB0'' (example_unix\<lparr>port := ''/dev/ttyS0'', port_fd := 3\<rparr>)
       = (''/dev/ttyS0'', example_unix\<lparr>port := ''/dev/ttyS0'', port_fd := 3\<rparr>)
   \<and> \<not> is_open_unix example_unix
   \<and> set_port_unix ''/dev/ttyUSB0'' example_unix
       = (''/dev/ttyUSB0'', example_unix\<lparr>port := ''/dev/ttyUSB0''\<rparr>)
   \<and> is_open_win32 (example_win32\<lparr>port := ''COM1'', h_port := 100\<rparr>)
   \<and> set_port_win32 ''COM2'' (example_win32\<lparr>port := ''COM1'', h_port := 100\<rparr>)
       = (''COM1'', example_win32\<lparr>port := ''COM1'', h_port := 100\<rparr>)
   \<and> \<not> is_open_win32 example_win32
   \<and> set_port_win32 ''COM2'' example_win32 = (''COM2'', example_win32\<lparr>port := ''COM2''\<rparr>)"
proof -
  have "is_open_unix (example_unix\<lparr>port := ''/dev/ttyS0'', port_fd := 3\<rparr>)"
    and "\<not> is_open_unix example_unix"
    and "is_open_win32 (example_win32\<lparr>port := ''COM1'', h_port := 100\<rparr>)"
    and "\<not> is_open_win32 example_win32"
    by (simp_all add: example_unix_def example_win32_def SerialInterface_unix_def
        SerialInterface_win32_def is_open_unix_def is_open_win32_def INVALID_HANDLE_VALUE_def)
  with C8_set_port [where s = "example_unix\<lparr>port := ''/dev/ttyS0'', port_fd := 3\<rparr>"
      and w = "example_win32\<lparr>port := ''COM1'', h_port := 100\<rparr>"]
    C8_set_port [where s = example_unix and w = example_win32]
  show ?thesis by simp
qed

text \<open>
  Claim C10. \<^verbatim>\<open>set_baud\<close> stores any value it is given, returns it, and \<^verbatim>\<open>get_baud\<close>
  returns it afterwards; for a value outside the supported set only the control block
  carries 19200.
\<close>

theorem C10_set_baud:
  "fst (set_baud_unix b s) = b \<and> baud (snd (set_baud_unix b s)) = b
   \<and> get_baud (snd (set_baud_unix b s)) = b
   \<and> fst (set_baud_win32 b w) = b \<and> baud (snd (set_baud_win32 b w)) = b
   \<and> get_baud (snd (set_baud_win32 b w)) = b
   \<and> (b \<notin> supported_bauds \<longrightarrow>
        cflag_rate (c_cflag (port_termios (snd (set_baud_unix b s)))) = Some 19200
        \<and> BaudRate (dcb_serial_params (snd (set_baud_win32 b w))) = 19200)"
proof -
  have "cflag_rate (c_cflag (assemble_termios (s\<lparr>baud := b\<rparr>)))
        = cflag_rate (baud_cflag b AND CBAUD)"
    using assemble_termios_baud [of "s\<lparr>baud := b\<rparr>"] by (simp add: cflag_rate_def)
  moreover have "cflag_rate (baud_cflag 19200 AND CBAUD) = Some 19200"
    using baud_cflag_rate [of 19200] by (simp add: supported_bauds_def)
  moreover have "baud_dcb 19200 = 19200"
    by (simp add: baud_dcb_def CBR_19200_def)
  ultimately show ?thesis
    by (simp add: set_baud_unix_def set_baud_win32_def get_baud_def Let_def
        BaudRate_assemble_dcb baud_cflag_fallback baud_dcb_fallback)
qed

theorem C10_set_baud_witness:
  "(12345 :: 64 word) \<notin> supported_bauds
   \<and> fst (set_baud_unix 12345 example_unix) = 12345
   \<and> get_baud (snd (set_baud_unix 12345 example_unix)) = 12345
   \<and> cflag_rate (c_cflag (port_termios (snd (set_baud_unix 12345 example_unix)))) = Some 19200
   \<and> fst (set_baud_win32 12345 example_win32) = 12345
   \<and> get_baud (snd (set_baud_win32 12345 example_win32)) = 12345
   \<and> BaudRate (dcb_serial_params (snd (set_baud_win32 12345 example_win32))) = 19200"
proof -
  have "(12345 :: 64 word) \<notin> supported_bauds"
    by (simp add: supported_bauds_def)
  with C10_set_baud [where b = 12345 and s = example_unix and w = example_win32]
  show ?thesis by simp
qed

lemma close_port_unix_facts:
  "fst (close_port_unix s) = SI_SUCCESS"
  "\<not> is_open_unix (snd (close_port_unix s))"
  "port_fd (snd (close_port_unix s)) = - 1"
  "emitted (snd (close_port_unix s)) = emitted s @ (if is_open_unix s then [Port_closed] else [])"
  "threads (snd (close_port_unix s)) = threads s"
  "port (snd (close_port_unix s)) = port s"
  "running (snd (close_port_unix s)) = (running s \<and> \<not> is_open_unix s)"
  "os_calls (snd (close_port_unix s)) = os_calls s @
     (if is_open_unix s then
        [Sys_tcsetattr (port_fd s) (port_termios_saved s), Sys_tcflush (port_fd s) TCOFLUSH,
         Sys_tcflush (port_fd s) TCIFLUSH, Sys_close (port_fd s)]
      else [])"
  by (simp_all add: close_port_unix_def Let_def is_open_unix_def sys_def emit_def)

lemma write_unix_error:
  assumes "is_open_unix s"
  shows "fst (write_unix (- 1) s buf n bw) = SI_ERROR"
    and "\<not> is_open_unix (fst (snd (write_unix (- 1) s buf n bw)))"
    and "emitted (fst (snd (write_unix (- 1) s buf n bw))) = emitted s @ [Port_error, Port_closed]"
    and "\<not> running (fst (snd (write_unix (- 1) s buf n bw)))"
    and "os_calls (fst (snd (write_unix (- 1) s buf n bw))) = os_calls s @
           [Sys_write (port_fd s) buf n, Sys_tcsetattr (port_fd s) (port_termios_saved s),
            Sys_tcflush (port_fd s) TCOFLUSH, Sys_tcflush (port_fd s) TCIFLUSH,
            Sys_close (port_fd s)]"
  using assms
  by (simp_all add: write_unix_def Let_def close_port_unix_facts is_open_unix_def sys_def
      emit_def)

lemma read_unix_error:
  assumes "is_open_unix s" and "read_ret r = - 1"
  shows "fst (read_unix r s buf n br) = SI_ERROR"
    and "\<not> is_open_unix (fst (snd (read_unix r s buf n br)))"
    and "emitted (fst (snd (read_unix r s buf n br))) = emitted s @ [Port_error, Port_closed]"
    and "\<not> running (fst (snd (read_unix r s buf n br)))"
    and "os_calls (fst (snd (read_unix r s buf n br))) = os_calls s @
           [Sys_read (port_fd s) n, Sys_tcsetattr (port_fd s) (port_termios_saved s),
            Sys_tcflush (port_fd s) TCOFLUSH, Sys_tcflush (port_fd s) TCIFLUSH,
            Sys_close (port_fd s)]"
  using assms
  by (simp_all add: read_unix_def Let_def close_port_unix_facts is_open_unix_def sys_def
      emit_def)

lemma write_win32_error:
  assumes "is_open_win32 w" and "\<not> io_ok r" and "io_last_error r \<noteq> ERROR_IO_PENDING"
  shows "write_win32 r w buf n bw
         = (SI_ERROR, sys (Win_WriteFile (h_port w) buf (ucast n) (h_overlapped w)) w, bw)"
  using assms by (simp add: write_win32_def Let_def)

lemma read_win32_error:
  assumes "is_open_win32 w" and "\<not> io_ok r" and "io_last_error r \<noteq> ERROR_IO_PENDING"
  shows "read_win32 r w buf n br
         = (SI_ERROR, sys (Win_ReadFile (h_port w) (ucast n) (h_overlapped w)) w, io_buf r, br)"
  using assms by (simp add: read_win32_def Let_def)

text \<open>
  Claim C1. On an open port, when the one transfer call inside \<^verbatim>\<open>read\<close> or \<^verbatim>\<open>write\<close>
  reports an error, the operation raises the port-error signal once, closes the port
  and returns the error status. The \<^verbatim>\<open>__unix__\<close> bodies do so (\<open>write_unix_error\<close>,
  \<open>read_unix_error\<close> above). The \<^verbatim>\<open>_WIN32\<close> bodies do not (\<open>write_win32_error\<close>,
  \<open>read_win32_error\<close>): on a port just opened, a \<^verbatim>\<open>WriteFile\<close> or \<^verbatim>\<open>ReadFile\<close> that
  fails with an error other than \<^verbatim>\<open>ERROR_IO_PENDING\<close> makes them return \<open>SI_ERROR\<close> with
  the port still open, the watcher still running and no signal raised.
\<close>

theorem C1_win32_transfer_error:
  "(case open_port_win32 example_open_win32 (SerialInterface_win32 zero_DCB zero_DCB) of
      None \<Rightarrow> False
    | Some (st, w) \<Rightarrow>
        st = SI_SUCCESS \<and> is_open_win32 w \<and> emitted w = [Port_opened] \<and>
        (case write_win32 example_io_error w [1, 2, 3] 3 0 of
           (st', w', bw) \<Rightarrow>
             st' = SI_ERROR \<and> is_open_win32 w' \<and> emitted w' = [Port_opened] \<and> running w'
             \<and> os_calls w' = os_calls w @ [Win_WriteFile 100 [1, 2, 3] 3 101]) \<and>
        (case read_win32 example_io_error w [0, 0, 0] 3 0 of
           (st', w', buf', br) \<Rightarrow>
             st' = SI_ERROR \<and> is_open_win32 w' \<and> emitted w' = [Port_opened] \<and> running w'
             \<and> os_calls w' = os_calls w @ [Win_ReadFile 100 3 101]))"
  by (simp add: open_port_win32_def open_state_win32_def open_timeouts_win32_def
      open_events_win32_def fail_open_win32_def SerialInterface_win32_def
      example_open_win32_def example_io_error_def is_open_win32_def INVALID_HANDLE_VALUE_def
      configure_port_win32_def launch_select_thread_def emit_def sys_def Let_def
      write_win32_def read_win32_def ERROR_IO_PENDING_def)

lemma close_port_win32_facts:
  "close_port_win32 ms w = Some (st, w') \<Longrightarrow>
     \<not> is_open_win32 w' \<and> threads w' = threads w \<and> port w' = port w
     \<and> emitted w' = emitted w @ (if is_open_win32 w then [Port_closed] else [])"
proof (induction ms arbitrary: w st w')
  case Nil
  then show ?case by (simp split: if_splits)
next
  case (Cons m ms)
  show ?case
  proof (cases "is_open_win32 w")
    case False
    with Cons.prems show ?thesis by simp
  next
    case True
    show ?thesis
    proof (cases m)
      case True
      with Cons.prems \<open>is_open_win32 w\<close> show ?thesis
        by (auto simp add: Let_def is_open_win32_def sys_def emit_def)
    next
      case False
      let ?w1 = "sys (Win_SetCommMask (h_port w) EV_RXCHAR) (w\<lparr>running := False\<rparr>)"
      from Cons.prems \<open>is_open_win32 w\<close> False
      obtain st2 where r: "close_port_win32 ms ?w1 = Some (st2, w')"
        by (auto simp add: Let_def split: option.splits)
      have "is_open_win32 ?w1" using \<open>is_open_win32 w\<close> by (simp add: is_open_win32_def sys_def)
      with Cons.IH [OF r] \<open>is_open_win32 w\<close> show ?thesis
        by (simp add: sys_def)
    qed
  qed
qed

lemma closed_unix_port_fd: "\<not> is_open_unix s \<Longrightarrow> s\<lparr>port_fd := - 1\<rparr> = s"
  by (cases s) (simp add: is_open_unix_def)

lemma closed_win32_h_port: "\<not> is_open_win32 w \<Longrightarrow> w\<lparr>h_port := INVALID_HANDLE_VALUE\<rparr> = w"
  by (cases w) (simp add: is_open_win32_def)

text \<open>
  Claim C7. When \<^verbatim>\<open>open\<close> (or \<^verbatim>\<open>CreateFile\<close>) yields no handle, \<^verbatim>\<open>open_port\<close> returns
  \<open>SI_ERROR\<close>, the port is closed afterwards, no thread is started and no port-opened
  signal is raised: the only signal there can be is the port-closed of a port that was
  open before. Called on a closed port, it changes nothing but the log of calls.
\<close>

theorem C7_open_failure:
  "(open_fd e = - 1 \<longrightarrow>
      fst (open_port_unix e s) = SI_ERROR
      \<and> \<not> is_open_unix (snd (open_port_unix e s))
      \<and> emitted (snd (open_port_unix e s))
          = emitted s @ (if is_open_unix s then [Port_closed] else [])
      \<and> threads (snd (open_port_unix e s)) = threads s
      \<and> (\<not> is_open_unix s \<longrightarrow> open_port_unix e s = (SI_ERROR, sys (Sys_open (port s)) s)))
   \<and> (op_CreateFile e' = INVALID_HANDLE_VALUE \<and> \<not> is_open_win32 w \<longrightarrow>
      open_port_win32 e' w = Some (SI_ERROR, sys (Win_CreateFile (device_prefix @ port w)) w))
   \<and> (op_CreateFile e' = INVALID_HANDLE_VALUE
      \<and> close_port_win32 (op_close e') w = Some (st0, w0) \<longrightarrow>
      open_port_win32 e' w = Some (SI_ERROR, sys (Win_CreateFile (device_prefix @ port w)) w0)
      \<and> \<not> is_open_win32 w0 \<and> threads w0 = threads w
      \<and> emitted w0 = emitted w @ (if is_open_win32 w then [Port_closed] else []))"
proof (intro conjI impI)
  assume e: "open_fd e = - 1"
  let ?s0 = "snd (close_port_unix s)"
  have r: "open_port_unix e s = (SI_ERROR, (sys (Sys_open (port ?s0)) ?s0)\<lparr>port_fd := - 1\<rparr>)"
    using e by (simp add: open_port_unix_def Let_def is_open_unix_def)
  show "fst (open_port_unix e s) = SI_ERROR" by (simp add: r)
  show "\<not> is_open_unix (snd (open_port_unix e s))" by (simp add: r is_open_unix_def)
  show "emitted (snd (open_port_unix e s))
          = emitted s @ (if is_open_unix s then [Port_closed] else [])"
    by (simp add: r sys_def close_port_unix_facts)
  show "threads (snd (open_port_unix e s)) = threads s"
    by (simp add: r sys_def close_port_unix_facts)
  show "open_port_unix e s = (SI_ERROR, sys (Sys_open (port s)) s)" if "\<not> is_open_unix s"
  proof -
    have "\<not> is_open_unix (sys (Sys_open (port s)) s)"
      using that by (simp add: is_open_unix_def sys_def)
    then show ?thesis
      using that closed_unix_port_fd [of "sys (Sys_open (port s)) s"]
      by (simp add: r close_port_unix_def)
  qed
next
  assume a: "op_CreateFile e' = INVALID_HANDLE_VALUE \<and> \<not> is_open_win32 w"
  then have "\<not> is_open_win32 (sys (Win_CreateFile (device_prefix @ port w)) w)"
    by (simp add: is_open_win32_def sys_def)
  from closed_win32_h_port [OF this] a
  show "open_port_win32 e' w = Some (SI_ERROR, sys (Win_CreateFile (device_prefix @ port w)) w)"
    by (simp add: open_port_win32_def Let_def is_open_win32_def)
next
  assume a: "op_CreateFile e' = INVALID_HANDLE_VALUE
      \<and> close_port_win32 (op_close e') w = Some (st0, w0)"
  then have c: "close_port_win32 (op_close e') w = Some (st0, w0)" by simp
  note f = close_port_win32_facts [OF c]
  then have "\<not> is_open_win32 (sys (Win_CreateFile (device_prefix @ port w)) w0)"
    by (simp add: is_open_win32_def sys_def)
  from closed_win32_h_port [OF this] a f
  show "open_port_win32 e' w = Some (SI_ERROR, sys (Win_CreateFile (device_prefix @ port w)) w0)"
    by (simp add: open_port_win32_def Let_def is_open_win32_def)
  from f show "\<not> is_open_win32 w0" by simp
  from f show "threads w0 = threads w" by simp
  from f show "emitted w0 = emitted w @ (if is_open_win32 w then [Port_closed] else [])" by simp
qed

theorem C7_open_failure_witness:
  "open_fd \<lparr>open_fd = - 1, open_attr = None\<rparr> = - 1
   \<and> \<not> is_open_unix example_unix
   \<and> open_port_unix \<lparr>open_fd = - 1, open_attr = None\<rparr> example_unix
       = (SI_ERROR, sys (Sys_open (port example_unix)) example_unix)
   \<and> \<not> is_open_unix (snd (open_port_unix \<lparr>open_fd = - 1, open_attr = None\<rparr> example_unix))
   \<and> emitted (snd (open_port_unix \<lparr>open_fd = - 1, open_attr = None\<rparr> example_unix)) = []
   \<and> op_CreateFile (example_open_win32\<lparr>op_CreateFile := INVALID_HANDLE_VALUE\<rparr>)
       = INVALID_HANDLE_VALUE
   \<and> \<not> is_open_win32 example_win32
   \<and> close_port_win32 [] example_win32 = Some (SI_SUCCESS, example_win32)
   \<and> open_port_win32 (example_open_win32\<lparr>op_CreateFile := INVALID_HANDLE_VALUE\<rparr>)
        example_win32
       = Some (SI_ERROR, sys (Win_CreateFile (device_prefix @ port example_win32)) example_win32)"
proof -
  have u: "\<not> is_open_unix example_unix" and w: "\<not> is_open_win32 example_win32"
    and e: "emitted example_unix = []"
    by (simp_all add: example_unix_def example_win32_def SerialInterface_unix_def
        SerialInterface_win32_def is_open_unix_def is_open_win32_def)
  have c: "close_port_win32 (op_close (example_open_win32\<lparr>op_CreateFile := INVALID_HANDLE_VALUE\<rparr>))
             example_win32 = Some (SI_SUCCESS, example_win32)"
    using w by simp
  have c': "close_port_win32 [] example_win32 = Some (SI_SUCCESS, example_win32)"
    using w by simp
  from C7_open_failure [where e = "\<lparr>open_fd = - 1, open_attr = None\<rparr>" and s = example_unix
      and e' = "example_open_win32\<lparr>op_CreateFile := INVALID_HANDLE_VALUE\<rparr>"
      and w = example_win32 and ?st0.0 = SI_SUCCESS and ?w0.0 = example_win32] u w e c c'
  show ?thesis by (simp add: sys_def is_open_unix_def)
qed

lemma close_port_unix_running: "\<not> running (snd (close_port_unix s)) \<or> \<not> is_open_unix s"
  by (simp add: close_port_unix_facts)
































lemmas unix_eval =
  run_unix_def example_unix_def example_open_unix_def example_timeout_def
  SerialInterface_unix_def open_port_unix_def close_port_unix_def configure_port_unix_def
  launch_select_thread_def thread_turn_unix_def select_thread_unix_def is_open_unix_def
  sys_def emit_def Let_def






text \<open>
  Apart from C3 as amended, a defect of the code: \<^verbatim>\<open>open_port\<close> on an open port closes
  it and opens it again at once. A watcher started by the first call that has not tested
  its loop condition in between finds \<open>running\<close> set and the handle valid again, and goes
  on beside the watcher the second call starts: two watchers on one open port, and both
  stay.
\<close>

lemma reopen_leaves_two_watchers:
  "is_open_unix (run_unix [Call_open example_open_unix, Call_open example_open_unix] example_unix)
   \<and> threads (run_unix [Call_open example_open_unix, Call_open example_open_unix] example_unix)
       = 2
   \<and> threads (run_unix [Call_open example_open_unix, Call_open example_open_unix,
        Watcher_turn example_timeout, Watcher_turn example_timeout] example_unix) = 2"
  by (simp add: unix_eval)

lemma sorted_key_remdups_adj: "sorted (map f xs) \<Longrightarrow> sorted (map f (remdups_adj xs))"
  by (induction xs rule: remdups_adj.induct) auto

lemma strict_sorted_keys:
  fixes ks :: "'k :: linorder list"
  shows "sorted ks \<Longrightarrow> distinct_adj ks \<Longrightarrow> sorted_wrt (<) ks"
proof (induction ks)
  case Nil
  show ?case by simp
next
  case (Cons k ks)
  show ?case
  proof (cases ks)
    case Nil
    then show ?thesis by simp
  next
    case (Cons y ys)
    with Cons.prems have "k \<le> y" and "k \<noteq> y" and le: "\<forall>z\<in>set ks. y \<le> z"
      by auto
    then have "k < y" by simp
    with le have "\<forall>z\<in>set ks. k < z" by auto
    moreover from Cons.prems Cons.IH have "sorted_wrt (<) ks"
      by (simp add: distinct_adj_ConsD)
    ultimately show ?thesis by simp
  qed
qed

lemma distinct_sorted_key:
  fixes f :: "'a \<Rightarrow> 'k :: linorder"
  assumes "sorted (map f xs)" and "distinct_adj xs" and "inj_on f (set xs)"
  shows "distinct xs"
proof -
  from assms(2,3) have "distinct_adj (map f xs)" by (rule distinct_adj_mapI)
  with assms(1) have "sorted_wrt (<) (map f xs)" by (rule strict_sorted_keys)
  then have "distinct (map f xs)" by (simp add: strict_sorted_iff)
  then show ?thesis by (simp add: distinct_map)
qed

lemma alphanum_items_2_10:
  "alphanum_items acc (p @ ''2'') < alphanum_items acc (p @ ''10'')"
proof (induction p arbitrary: acc)
  case Nil
  show ?case by (cases acc) (simp_all add: c_isdigit_def)
next
  case (Cons c p)
  show ?case
  proof (cases "c_isdigit c")
    case True
    with Cons.IH show ?thesis by simp
  next
    case False
    with Cons.IH [of None] show ?thesis by (cases acc) simp_all
  qed
qed

lemma alphanum_less_2_10: "alphanum_less (p @ ''2'') (p @ ''10'')"
  by (simp add: alphanum_less_def alphanum_key_def alphanum_items_2_10)

lemma sorted_key_index:
  assumes "sorted (map f ys)" and "i < length ys" and "j < length ys" and "f (ys ! i) < f (ys ! j)"
  shows "i < j"
proof (rule ccontr)
  assume "\<not> i < j"
  then have "j \<le> i" by simp
  with assms(1,2) have "map f ys ! j \<le> map f ys ! i"
    by (simp add: sorted_nth_mono del: nth_map)
  with assms(2,3) have "f (ys ! j) \<le> f (ys ! i)" by simp
  with assms(4) show False by simp
qed

lemma count_list_insort_key: "count_list (insort_key f a xs) x = count_list (a # xs) x"
  by (induction xs) auto

lemma count_list_sort_key: "count_list (sort_key f xs) x = count_list xs x"
  by (induction xs) (simp_all add: count_list_insort_key)

lemma sorted_wrt_alphanum:
  "sorted_wrt (\<lambda>a b. \<not> alphanum_less b a) ys = sorted (map alphanum_key ys)"
proof -
  have "(\<lambda>a b. \<not> alphanum_less b a) = (\<lambda>a b. alphanum_key a \<le> alphanum_key b)"
    by (simp add: alphanum_less_def not_less)
  then show ?thesis by (simp only: sorted_map)
qed

lemma sort_outcome_sort_key: "sort_outcome xs (sort_key alphanum_key xs)"
  unfolding sort_outcome_def sorted_wrt_alphanum
  by (simp add: count_list_sort_key list_all_iff)

lemma sort_outcome_std_sort: "sort_outcome xs (std_sort leave xs)"
  by (simp add: std_sort_def sort_outcome_sort_key)

lemma sorted_std_sort: "sorted (map alphanum_key (remdups_adj (std_sort leave xs)))"
proof -
  from sort_outcome_std_sort [of xs leave]
  have "sorted (map alphanum_key (std_sort leave xs))"
    unfolding sort_outcome_def sorted_wrt_alphanum by simp
  then show ?thesis by (rule sorted_key_remdups_adj)
qed

lemma natural_order_sort_unique: "natural_order_result (remdups_adj (std_sort leave xs))"
proof -
  let ?ys = "remdups_adj (std_sort leave xs)"
  have s: "sorted (map alphanum_key ?ys)" by (rule sorted_std_sort)
  then have 1: "sorted_wrt (\<lambda>a b. \<not> alphanum_less b a) ?ys"
    by (simp only: sorted_wrt_alphanum)
  have 2: "distinct_adj ?ys" by simp
  have 3: "distinct ?ys" if "inj_on alphanum_key (set ?ys)"
    using s 2 that by (rule distinct_sorted_key)
  have 4: "i < j"
    if "i < length ?ys \<and> j < length ?ys \<and> ?ys ! i = p @ ''2'' \<and> ?ys ! j = p @ ''10''"
    for p i j
  proof -
    from that alphanum_less_2_10 [of p]
    have "alphanum_key (?ys ! i) < alphanum_key (?ys ! j)"
      by (simp add: alphanum_less_def)
    with s that show ?thesis by (auto intro: sorted_key_index)
  qed
  from 1 2 3 4 show ?thesis unfolding natural_order_result_def by blast
qed

text \<open>
  What \<^verbatim>\<open>enumerate_ports\<close> does achieve, whatever order the sort leaves equal elements
  in: natural order, no equal neighbours, and no duplicates among identifiers whose keys
  differ.
\<close>

lemma enumerate_ports_natural_order:
  "natural_order_result (enumerate_ports_unix leave dev byid)"
  "natural_order_result (enumerate_ports_win32 leave names)"
  by (simp_all add: enumerate_ports_unix_def enumerate_ports_win32_def Let_def
      natural_order_sort_unique)

text \<open>
  Claim C9. The list \<^verbatim>\<open>enumerate_ports\<close> returns is to be free of duplicates and in
  natural order. The order holds (\<open>enumerate_ports_natural_order\<close> above), the freedom
  from duplicates does not: \<^verbatim>\<open>std::unique\<close> removes equal neighbours only, and the sort
  brings equal strings together only as far as the comparator tells them from the
  others. With \<^verbatim>\<open>ttyUSB01\<close> and \<^verbatim>\<open>ttyUSB1\<close> in \<^verbatim>\<open>/dev/\<close> and a link resolving to the
  first, the three candidates compare equal, the list as it stands is an outcome of the
  sort, both leaving the list alone and insertion sort give it, and the duplicate is
  returned.
\<close>

theorem C9_duplicate_survives:
  "alphanum_key ''/dev/ttyUSB01'' = alphanum_key ''/dev/ttyUSB1''
   \<and> sort_outcome [''/dev/ttyUSB01'', ''/dev/ttyUSB1'', ''/dev/ttyUSB01'']
        [''/dev/ttyUSB01'', ''/dev/ttyUSB1'', ''/dev/ttyUSB01'']
   \<and> enumerate_ports_unix id (Some example_dev) (Some example_byid)
       = [''/dev/ttyUSB01'', ''/dev/ttyUSB1'', ''/dev/ttyUSB01'']
   \<and> enumerate_ports_unix (sort_key alphanum_key) (Some example_dev) (Some example_byid)
       = [''/dev/ttyUSB01'', ''/dev/ttyUSB1'', ''/dev/ttyUSB01'']
   \<and> \<not> distinct (enumerate_ports_unix id (Some example_dev) (Some example_byid))"
proof -
  let ?xs = "[''/dev/ttyUSB01'', ''/dev/ttyUSB1'', ''/dev/ttyUSB01'']"
  have k: "alphanum_key ''/dev/ttyUSB01'' = alphanum_key ''/dev/ttyUSB1''"
    by (simp add: alphanum_key_def c_isdigit_def)
  have o: "sort_outcome ?xs ?xs"
    by (simp add: sort_outcome_def alphanum_less_def k)
  have c: "scan_byid example_byid (scan_dev example_dev []) = ?xs"
    by (simp add: example_dev_def example_byid_def)
  have i: "std_sort id ?xs = ?xs"
    using o by (simp add: std_sort_def)
  have "sort_key alphanum_key ?xs = ?xs"
    by (simp add: k)
  with sort_outcome_sort_key [of ?xs] have s: "std_sort (sort_key alphanum_key) ?xs = ?xs"
    by (simp add: std_sort_def)
  have 1: "enumerate_ports_unix id (Some example_dev) (Some example_byid) = ?xs"
    by (simp add: enumerate_ports_unix_def c i)
  have 2: "enumerate_ports_unix (sort_key alphanum_key) (Some example_dev) (Some example_byid)
           = ?xs"
    by (simp add: enumerate_ports_unix_def c s)
  from k o 1 2 show ?thesis by simp
qed

end
